theory Spec2Isabelle
  imports Main "HOL-Library.Sublist"
begin

section \<open>The DNSDumpster client: a shallow embedding of DNSDumpsterAPI.py\<close>

text \<open>
  The embedding follows \<^verbatim>\<open>src/dnsdumpster/DNSDumpsterAPI.py\<close>. Python values that
  the client builds (strings, \<^verbatim>\<open>None\<close>, lists, dictionaries) are values of one
  datatype; a dictionary is an association list in insertion order. An exception is a
  value of type \<open>error\<close> on the left of a sum. Strings are \<open>char list\<close>: a character is
  a code point below 256. Console output (\<^verbatim>\<open>print\<close>) is not part of the model.
\<close>

subsection \<open>Python values and exceptions\<close>

datatype error = IndexError | RequestException

datatype pyval =
    PNone
  | PStr string
  | PList "pyval list"
  | PDict "(string \<times> pyval) list"

text \<open>\<^verbatim>\<open>xs[i]\<close> for a constant index \<open>i \<ge> 0\<close>: out of range raises IndexError.\<close>

definition py_index :: "'a list \<Rightarrow> nat \<Rightarrow> error + 'a" where
  "py_index xs i = (if i < length xs then Inr (xs ! i) else Inl IndexError)"

text \<open>\<^verbatim>\<open>d[k]\<close> read from a dictionary value and the list of its keys.\<close>

fun dict_get :: "pyval \<Rightarrow> string \<Rightarrow> pyval option" where
  "dict_get (PDict kvs) k = map_of kvs k"
| "dict_get _ k = None"

fun dict_keys :: "pyval \<Rightarrow> string list" where
  "dict_keys (PDict kvs) = map fst kvs"
| "dict_keys _ = []"

subsection \<open>Python string operations\<close>

definition LF :: char where "LF = CHR 0x0A"
definition CR :: char where "CR = CHR 0x0D"

text \<open>\<^verbatim>\<open>str.isspace\<close> on one character (code points below 256).\<close>

definition isspace :: "char \<Rightarrow> bool" where
  "isspace c = (c \<in> set [CHR 0x09, CHR 0x0A, CHR 0x0B, CHR 0x0C, CHR 0x0D,
                          CHR 0x1C, CHR 0x1D, CHR 0x1E, CHR 0x1F, CHR 0x20,
                          CHR 0x85, CHR 0xA0])"

text \<open>\<^verbatim>\<open>s.strip()\<close>.\<close>

definition strip :: "string \<Rightarrow> string" where
  "strip s = rev (dropWhile isspace (rev (dropWhile isspace s)))"

text \<open>The line boundaries of \<^verbatim>\<open>str.splitlines\<close> other than CR LF (code points below 256).\<close>

definition is_linebreak :: "char \<Rightarrow> bool" where
  "is_linebreak c = (c \<in> set [CHR 0x0A, CHR 0x0D, CHR 0x0B, CHR 0x0C,
                               CHR 0x1C, CHR 0x1D, CHR 0x1E, CHR 0x85])"

text \<open>
  \<^verbatim>\<open>s.splitlines()\<close>: \<open>cur\<close> is the line read so far. CR LF is one boundary; a
  boundary at the very end opens no further line.
\<close>

fun splitlines_from :: "string \<Rightarrow> string \<Rightarrow> string list" where
  "splitlines_from cur [] = (if cur = [] then [] else [cur])"
| "splitlines_from cur (c # cs) =
     (if c = CR \<and> cs \<noteq> [] \<and> hd cs = LF then cur # splitlines_from [] (tl cs)
      else if is_linebreak c then cur # splitlines_from [] cs
      else splitlines_from (cur @ [c]) cs)"

definition splitlines :: "string \<Rightarrow> string list" where
  "splitlines s = splitlines_from [] s"

text \<open>
  \<^verbatim>\<open>s.split(sep)\<close> for a separator that is not empty: the pieces between the
  occurrences of \<open>sep\<close>, read from the left. The result is never empty.
\<close>

fun split_from :: "string \<Rightarrow> string \<Rightarrow> string \<Rightarrow> string list" where
  "split_from sep cur [] = [cur]"
| "split_from sep cur (c # cs) =
     (if prefix sep (c # cs) then cur # split_from sep [] (drop (length sep - 1) cs)
      else split_from sep (cur @ [c]) cs)"

definition split :: "string \<Rightarrow> string \<Rightarrow> string list" where
  "split s sep = split_from sep [] s"

text \<open>\<^verbatim>\<open>sep.join(xs)\<close>.\<close>

fun join :: "string \<Rightarrow> string list \<Rightarrow> string" where
  "join sep [] = []"
| "join sep [x] = x"
| "join sep (x # y # ys) = x @ sep @ join sep (y # ys)"

subsection \<open>The two regular expressions of the client\<close>

text \<open>
  Both patterns are sequences of atoms: a set of characters repeated between \<open>lo\<close> and
  \<open>hi\<close> times (no upper bound when \<open>hi\<close> is \<open>None\<close>), greedily. \<open>re_match\<close> is the
  backtracking matcher of Python's \<^verbatim>\<open>re\<close> at the start of the text: it tries the
  longest repetition first and returns the text matched. \<open>re_search\<close> is the leftmost
  match, which is \<^verbatim>\<open>re.findall(p, s)[0]\<close> when there is one.
\<close>

datatype atom = Rep "char \<Rightarrow> bool" nat "nat option"

definition Lit :: "char \<Rightarrow> atom" where
  "Lit c = Rep (\<lambda>x. x = c) 1 (Some 1)"

definition Dot :: atom where
  "Dot = Rep (\<lambda>x. x \<noteq> LF) 1 (Some 1)"

fun first_some :: "('a \<Rightarrow> 'b option) \<Rightarrow> 'a list \<Rightarrow> 'b option" where
  "first_some f [] = None"
| "first_some f (x # xs) = (case f x of Some y \<Rightarrow> Some y | None \<Rightarrow> first_some f xs)"

text \<open>The repetition counts an atom may take on a text, the longest first.\<close>

fun counts :: "atom \<Rightarrow> string \<Rightarrow> nat list" where
  "counts (Rep p lo hi) s =
     (let avail = length (takeWhile p s);
          top = (case hi of None \<Rightarrow> avail | Some h \<Rightarrow> min h avail)
      in rev [lo ..< Suc top])"

text \<open>
  \<open>re_match r s\<close> matches the atoms \<open>r\<close> at the start of \<open>s\<close>; \<open>re_try r s ns\<close> has
  given the atom before \<open>r\<close> the counts \<open>ns\<close> still to try, and takes the first of them
  after which the rest of the pattern matches.
\<close>

fun re_match :: "atom list \<Rightarrow> string \<Rightarrow> string option"
  and re_try :: "atom list \<Rightarrow> string \<Rightarrow> nat list \<Rightarrow> string option" where
  "re_match [] s = Some []"
| "re_match (a # r) s = re_try r s (counts a s)"
| "re_try r s [] = None"
| "re_try r s (n # ns) =
     (case re_match r (drop n s) of
        Some m \<Rightarrow> Some (take n s @ m)
      | None \<Rightarrow> re_try r s ns)"

fun re_search :: "atom list \<Rightarrow> string \<Rightarrow> string option" where
  "re_search r [] = re_match r []"
| "re_search r (c # cs) =
     (case re_match r (c # cs) of Some m \<Rightarrow> Some m | None \<Rightarrow> re_search r cs)"

definition isdigit :: "char \<Rightarrow> bool" where
  "isdigit c = (c \<in> set ''0123456789'')"

text \<open>
  \<^verbatim>\<open>pattern_ip = r'([0-9]{1,3}\.[0-9]{1,3}\.[0-9]{1,3}\.[0-9]{1,3})'\<close>; its one group
  is the whole match.
\<close>

definition pattern_ip :: "atom list" where
  "pattern_ip = [Rep isdigit 1 (Some 3), Lit CHR ''.'', Rep isdigit 1 (Some 3), Lit CHR ''.'',
                 Rep isdigit 1 (Some 3), Lit CHR ''.'', Rep isdigit 1 (Some 3)]"

text \<open>A character of a literal pattern string: an unescaped dot matches any character but LF.\<close>

definition pat_char :: "char \<Rightarrow> atom" where
  "pat_char c = (if c = CHR ''.'' then Dot else Lit c)"

definition hexdash :: "char \<Rightarrow> bool" where
  "hexdash c = (c \<in> set ''abcdef0123456789-'')"

text \<open>
  \<^verbatim>\<open>r'https://api.dnsdumpster.com/static/maps/' + re.escape(domain) + r'-[a-f0-9-]+\.png'\<close>
  and the same with \<^verbatim>\<open>xlsx\<close>: the escaped domain matches itself, character by character.
\<close>

definition pattern_asset :: "string \<Rightarrow> string \<Rightarrow> string \<Rightarrow> atom list" where
  "pattern_asset dir domain ext =
     map pat_char (''https://api.dnsdumpster.com/static/'' @ dir @ ''/'') @ map Lit domain @
     [Lit CHR ''-'', Rep hexdash 1 None, Lit CHR ''.''] @ map Lit ext"

subsection \<open>The document tree and the operations of the HTML library used by the client\<close>

text \<open>
  A parsed document is a tree of tags (name, attributes, children) and strings. A string
  is plain text (\<open>NavigableString\<close>) or belongs to one of the library's other string
  classes: a comment, a CDATA section, a declaration, a doctype, a processing
  instruction, or the text the parser finds inside a \<^verbatim>\<open>script\<close>, \<^verbatim>\<open>style\<close>,
  \<^verbatim>\<open>template\<close>, \<^verbatim>\<open>rt\<close> or \<^verbatim>\<open>rp\<close> element. An attribute value is one string, or a
  list of tokens for the attributes the library splits at white space (\<^verbatim>\<open>class\<close> among
  them); the names of the attributes of a tag are distinct. The functions below are the
  library operations the client calls, on this tree.
\<close>

datatype attr_value = Single string | Multi "string list"

datatype string_class =
    CData | Comment | Declaration | Doctype | ProcessingInstruction
  | Script | Stylesheet | TemplateString | RubyTextString | RubyParenthesisString

datatype node =
    Tag string "(string \<times> attr_value) list" "node list"
  | NavigableString string
  | OtherString string_class string

text \<open>\<^verbatim>\<open>tag.findAll(name)\<close>: every descendant tag of that name, in document order.\<close>

fun self_and_descendants :: "node \<Rightarrow> node list" where
  "self_and_descendants (Tag n as cs) = Tag n as cs # concat (map self_and_descendants cs)"
| "self_and_descendants (NavigableString s) = [NavigableString s]"
| "self_and_descendants (OtherString k s) = [OtherString k s]"

fun descendants :: "node \<Rightarrow> node list" where
  "descendants (Tag n as cs) = concat (map self_and_descendants cs)"
| "descendants (NavigableString s) = []"
| "descendants (OtherString k s) = []"

fun is_tag_named :: "string \<Rightarrow> node \<Rightarrow> bool" where
  "is_tag_named name (Tag n as cs) = (n = name)"
| "is_tag_named name (NavigableString s) = False"
| "is_tag_named name (OtherString k s) = False"

definition findAll :: "node \<Rightarrow> string \<Rightarrow> node list" where
  "findAll t name = filter (is_tag_named name) (descendants t)"

text \<open>\<^verbatim>\<open>tag.find(name, attrs={})\<close>: the first such descendant, or \<^verbatim>\<open>None\<close>.\<close>

definition find_tag :: "node \<Rightarrow> string \<Rightarrow> node option" where
  "find_tag t name = (case findAll t name of [] \<Rightarrow> None | x # _ \<Rightarrow> Some x)"

text \<open>
  \<^verbatim>\<open>tag.find_all(name, class_=c)\<close>: the descendants of that name one of whose class
  tokens is \<open>c\<close> (or whose whole class value is \<open>c\<close>).
\<close>

fun has_class :: "string \<Rightarrow> node \<Rightarrow> bool" where
  "has_class c (Tag n as cs) =
     (case map_of as ''class'' of
        None \<Rightarrow> False
      | Some (Single v) \<Rightarrow> v = c
      | Some (Multi vs) \<Rightarrow> c \<in> set vs \<or> join '' '' vs = c)"
| "has_class c (NavigableString s) = False"
| "has_class c (OtherString k s) = False"

definition find_all_class :: "node \<Rightarrow> string \<Rightarrow> string \<Rightarrow> node list" where
  "find_all_class t name c = filter (has_class c) (findAll t name)"

text \<open>
  \<^verbatim>\<open>tag.text\<close> for a tag such as \<^verbatim>\<open>td\<close> or \<^verbatim>\<open>span\<close>: the strings below the tag whose
  class is exactly NavigableString or CData, concatenated in document order. A comment,
  a declaration, a doctype, a processing instruction and the strings of a \<^verbatim>\<open>script\<close>,
  \<^verbatim>\<open>style\<close>, \<^verbatim>\<open>template\<close>, \<^verbatim>\<open>rt\<close> or \<^verbatim>\<open>rp\<close> element are left out.
\<close>

fun get_text :: "node \<Rightarrow> string" where
  "get_text (Tag n as cs) = concat (map get_text cs)"
| "get_text (NavigableString s) = s"
| "get_text (OtherString k s) = (if k = CData then s else [])"

text \<open>
  \<^verbatim>\<open>str(tag)\<close>: the tag written out with the library's default formatter. The
  attributes are written in the order of their names. The characters \<^verbatim>\<open>&\<close>, \<^verbatim>\<open><\<close>
  and \<^verbatim>\<open>>\<close> of an attribute value are written as entities, and so are those of a
  string unless its parent is a \<^verbatim>\<open>script\<close> or \<^verbatim>\<open>style\<close> tag; a comment, a CDATA
  section, a declaration, a doctype and a processing instruction are written as they
  are, between their opening and closing marks. An attribute value is put in double
  quotes (in single quotes when it has a double quote and no single quote, and with its
  double quotes as entities when it has both); a void element without children is
  written \<^verbatim>\<open><name/>\<close>.
\<close>

fun substitute_xml_char :: "char \<Rightarrow> string" where
  "substitute_xml_char c =
     (if c = CHR ''&'' then ''&amp;''
      else if c = CHR ''<'' then ''&lt;''
      else if c = CHR ''>'' then ''&gt;''
      else [c])"

definition substitute_xml :: "string \<Rightarrow> string" where
  "substitute_xml s = concat (map substitute_xml_char s)"

definition quoted_attribute_value :: "string \<Rightarrow> string" where
  "quoted_attribute_value v =
     (if CHR 0x22 \<in> set v then
        (if CHR 0x27 \<in> set v
         then [CHR 0x22] @ concat (map (\<lambda>c. if c = CHR 0x22 then ''&quot;'' else [c]) v) @ [CHR 0x22]
         else [CHR 0x27] @ v @ [CHR 0x27])
      else [CHR 0x22] @ v @ [CHR 0x22])"

fun attr_string :: "attr_value \<Rightarrow> string" where
  "attr_string (Single v) = v"
| "attr_string (Multi vs) = join '' '' vs"

definition decode_attr :: "string \<times> attr_value \<Rightarrow> string" where
  "decode_attr kv =
     '' '' @ fst kv @ ''='' @ quoted_attribute_value (substitute_xml (attr_string (snd kv)))"

text \<open>Python's order of strings, and \<^verbatim>\<open>sorted(tag.attrs.items())\<close> by insertion.\<close>

fun str_less :: "string \<Rightarrow> string \<Rightarrow> bool" where
  "str_less [] [] = False"
| "str_less [] (y # ys) = True"
| "str_less (x # xs) [] = False"
| "str_less (x # xs) (y # ys) =
     ((of_char x :: nat) < of_char y \<or> (x = y \<and> str_less xs ys))"

fun insort_attr ::
  "string \<times> attr_value \<Rightarrow> (string \<times> attr_value) list \<Rightarrow> (string \<times> attr_value) list" where
  "insort_attr kv [] = [kv]"
| "insort_attr kv (x # xs) =
     (if str_less (fst x) (fst kv) then x # insort_attr kv xs else kv # x # xs)"

fun sorted_attrs :: "(string \<times> attr_value) list \<Rightarrow> (string \<times> attr_value) list" where
  "sorted_attrs [] = []"
| "sorted_attrs (kv # kvs) = insort_attr kv (sorted_attrs kvs)"

definition empty_element_tags :: "string list" where
  "empty_element_tags =
     [''area'', ''base'', ''br'', ''col'', ''embed'', ''hr'', ''img'', ''input'', ''keygen'',
      ''link'', ''menuitem'', ''meta'', ''param'', ''source'', ''track'', ''wbr'',
      ''basefont'', ''bgsound'', ''command'', ''frame'', ''image'', ''isindex'', ''nextid'',
      ''spacer'']"

text \<open>The marks around the strings that are written as they are.\<close>

fun string_marks :: "string_class \<Rightarrow> (string \<times> string) option" where
  "string_marks CData = Some (''<![CDATA['', '']]>'')"
| "string_marks Comment = Some (''<!--'', ''-->'')"
| "string_marks Declaration = Some (''<?'', ''?>'')"
| "string_marks Doctype = Some (''<!DOCTYPE '', ''>'' @ [LF])"
| "string_marks ProcessingInstruction = Some (''<?'', ''>'')"
| "string_marks Script = None"
| "string_marks Stylesheet = None"
| "string_marks TemplateString = None"
| "string_marks RubyTextString = None"
| "string_marks RubyParenthesisString = None"

definition format_string :: "string \<Rightarrow> string \<Rightarrow> string" where
  "format_string parent s =
     (if parent = ''script'' \<or> parent = ''style'' then s else substitute_xml s)"

text \<open>\<open>decode_in parent t\<close> writes \<open>t\<close> as a child of a tag named \<open>parent\<close>.\<close>

fun decode_in :: "string \<Rightarrow> node \<Rightarrow> string" where
  "decode_in parent (Tag n as cs) =
     (if cs = [] \<and> n \<in> set empty_element_tags
      then ''<'' @ n @ concat (map decode_attr (sorted_attrs as)) @ ''/>''
      else ''<'' @ n @ concat (map decode_attr (sorted_attrs as)) @ ''>'' @
           concat (map (decode_in n) cs) @ ''</'' @ n @ ''>'')"
| "decode_in parent (NavigableString s) = format_string parent s"
| "decode_in parent (OtherString k s) =
     (case string_marks k of
        Some (opening, closing) \<Rightarrow> opening @ s @ closing
      | None \<Rightarrow> format_string parent s)"

definition decode :: "node \<Rightarrow> string" where
  "decode t = decode_in [] t"

subsection \<open>Base64\<close>

text \<open>
  \<^verbatim>\<open>base64.b64encode(data).decode('utf-8')\<close>: three bytes \<open>x\<close>, \<open>y\<close>, \<open>z\<close> become four
  characters, the six-bit groups of their 24 bits; one or two bytes at the end are
  filled up with zero bits and the text with \<^verbatim>\<open>=\<close>.
\<close>

definition b64_alphabet :: string where
  "b64_alphabet = ''ABCDEFGHIJKLMNOPQRSTUVWXYZabcdefghijklmnopqrstuvwxyz0123456789+/''"

definition b64_char :: "nat \<Rightarrow> char" where
  "b64_char i = b64_alphabet ! i"

fun b64encode :: "string \<Rightarrow> string" where
  "b64encode [] = []"
| "b64encode [a] =
     (let x = of_char a :: nat
      in [b64_char (x div 4), b64_char (x mod 4 * 16), CHR ''='', CHR ''=''])"
| "b64encode [a, b] =
     (let x = of_char a :: nat; y = of_char b :: nat
      in [b64_char (x div 4), b64_char (x mod 4 * 16 + y div 16), b64_char (y mod 16 * 4),
          CHR ''=''])"
| "b64encode (a # b # c # rest) =
     (let x = of_char a :: nat; y = of_char b :: nat; z = of_char c :: nat
      in [b64_char (x div 4), b64_char (x mod 4 * 16 + y div 16),
          b64_char (y mod 16 * 4 + z div 64), b64_char (z mod 64)]
         @ b64encode rest)"

subsection \<open>The outside world\<close>

text \<open>
  The HTTP library and the HTML parser are parameters of the client: a request either
  raises or gives a response, and \<^verbatim>\<open>BeautifulSoup(html, 'html.parser')\<close> gives the
  document tree of a text. Every call to them is appended to a trace.
\<close>

record response =
  status_code :: nat
  resp_text :: string
  content :: string

record env =
  BeautifulSoup :: "string \<Rightarrow> node"
  requests_get :: "string \<Rightarrow> error + response"
  requests_post :: "string \<Rightarrow> (string \<times> string) list \<Rightarrow> (string \<times> string) list \<Rightarrow> error + response"

datatype call =
    Call_BeautifulSoup string
  | Call_requests_get string
  | Call_requests_post string "(string \<times> string) list" "(string \<times> string) list"

fun is_parser_call :: "call \<Rightarrow> bool" where
  "is_parser_call (Call_BeautifulSoup h) = True"
| "is_parser_call (Call_requests_get u) = False"
| "is_parser_call (Call_requests_post u h d) = False"

text \<open>The client object: \<^verbatim>\<open>self.verbose\<close> and \<^verbatim>\<open>self.authorization\<close> (a token or \<^verbatim>\<open>None\<close>).\<close>

record client =
  verbose :: bool
  authorization :: "string option"

subsection \<open>get\_dnsdumpster\<close>

text \<open>
  \<^verbatim>\<open>if not self.authorization\<close> holds for \<^verbatim>\<open>None\<close> and for the empty string. The
  result is the response text, or \<^verbatim>\<open>None\<close>; an exception of the request is not caught.
\<close>

definition get_dnsdumpster ::
  "env \<Rightarrow> client \<Rightarrow> string \<Rightarrow> call list \<Rightarrow> (error + string option) \<times> call list" where
  "get_dnsdumpster E self target tr =
     (case authorization self of
        None \<Rightarrow> (Inr None, tr)
      | Some token \<Rightarrow>
          if token = [] then (Inr None, tr)
          else
            (let url = ''https://api.dnsdumpster.com/htmld/'';
                 headers = [(''Authorization'', token)];
                 data = [(''target'', target)];
                 tr1 = tr @ [Call_requests_post url headers data]
             in case requests_post E url headers data of
                  Inl e \<Rightarrow> (Inl e, tr1)
                | Inr response \<Rightarrow>
                    if status_code response \<noteq> 200 then (Inr None, tr1)
                    else (Inr (Some (resp_text response)), tr1)))"

subsection \<open>retrieve\_results\<close>

text \<open>\<^verbatim>\<open>re.findall(pattern, s)[0]\<close>: the first match, IndexError when there is none.\<close>

definition findall_first :: "atom list \<Rightarrow> string \<Rightarrow> error + string" where
  "findall_first r s = (case re_search r s of None \<Rightarrow> Inl IndexError | Some m \<Rightarrow> Inr m)"

text \<open>
  The generator expression of \<^verbatim>\<open>open_service\<close>, joined: the lines of the text that are
  not blank, each stripped.
\<close>

definition service_lines :: "string \<Rightarrow> string" where
  "service_lines s = join [LF] (map strip (filter (\<lambda>line. strip line \<noteq> []) (splitlines s)))"

text \<open>
  The body of the \<^verbatim>\<open>try\<close> block for one row, statement by statement: \<open>Inl\<close> is the
  exception that leaves the block, \<open>Inr\<close> the dictionary that is appended.
\<close>

definition extract_row :: "node \<Rightarrow> error + pyval" where
  "extract_row tr =
     (let tds = findAll tr ''td'' in
      case py_index tds 0 of Inl e \<Rightarrow> Inl e | Inr td0 \<Rightarrow>
      case py_index (split (decode td0) ''<br/>'') 0 of Inl e \<Rightarrow> Inl e | Inr h0 \<Rightarrow>
      case py_index (split h0 ''>'') 1 of Inl e \<Rightarrow> Inl e | Inr h1 \<Rightarrow>
      case py_index (split h1 ''<'') 0 of Inl e \<Rightarrow> Inl e | Inr host \<Rightarrow>
      case py_index tds 1 of Inl e \<Rightarrow> Inl e | Inr td1 \<Rightarrow>
      case findall_first pattern_ip (get_text td1) of Inl e \<Rightarrow> Inl e | Inr ip \<Rightarrow>
      let reverse_dns = (case find_tag td1 ''span'' of Some sp \<Rightarrow> get_text sp | None \<Rightarrow> []);
          autonomous_system = (if length tds > 2 then get_text (tds ! 2) else [])
      in
      case (if LF \<in> set autonomous_system then py_index (split autonomous_system [LF]) 1
            else Inr []) of Inl e \<Rightarrow> Inl e | Inr asn \<Rightarrow>
      case (if LF \<in> set autonomous_system then py_index (split autonomous_system [LF]) 2
            else Inr []) of Inl e \<Rightarrow> Inl e | Inr asn_range \<Rightarrow>
      let span_elements = (if length tds > 3 then find_all_class (tds ! 3) ''span'' ''sm-text'' else []);
          asn_name = (if length span_elements > 0 then strip (get_text (span_elements ! 0)) else []);
          country = (if length span_elements > 1 then strip (get_text (span_elements ! 1)) else []);
          open_service = (if length tds > 4 then service_lines (get_text (tds ! 4)) else ''N/A'')
      in Inr (PDict [(''host'', PStr host), (''ip'', PStr ip), (''reverse_dns'', PStr reverse_dns),
                     (''as'', PStr asn), (''asn_range'', PStr asn_range),
                     (''asn_name'', PStr asn_name), (''asn_country'', PStr country),
                     (''open_service'', PStr open_service)]))"

text \<open>
  The loop over the rows: \<^verbatim>\<open>except Exception: pass\<close> leaves \<open>res\<close> as it is and goes
  on with the next row.
\<close>

fun retrieve_loop :: "node list \<Rightarrow> pyval list \<Rightarrow> pyval list" where
  "retrieve_loop [] res = res"
| "retrieve_loop (tr # trs) res =
     (case extract_row tr of
        Inr data \<Rightarrow> retrieve_loop trs (res @ [data])
      | Inl e \<Rightarrow> retrieve_loop trs res)"

definition retrieve_results :: "node \<Rightarrow> pyval list" where
  "retrieve_results table = retrieve_loop (findAll table ''tr'') []"

subsection \<open>retrieve\_txt\_record\<close>

fun txt_loop :: "node list \<Rightarrow> pyval list \<Rightarrow> pyval list" where
  "txt_loop [] res = res"
| "txt_loop (td # tds) res = txt_loop tds (res @ [PStr (strip (get_text td))])"

definition retrieve_txt_record :: "node \<Rightarrow> pyval list" where
  "retrieve_txt_record table = txt_loop (findAll table ''td'') []"

subsection \<open>parse\_dnsdumpster\<close>

text \<open>
  One \<^verbatim>\<open>try\<close>/\<^verbatim>\<open>except Exception\<close>/\<^verbatim>\<open>finally\<close> block of an asset: the first match of
  the pattern in the HTML text (IndexError when there is none), one GET of that URL
  (which may raise), and the Base64 text of the body; any exception gives \<^verbatim>\<open>None\<close>.
  The status of the response is not read.
\<close>

definition fetch_asset ::
  "env \<Rightarrow> atom list \<Rightarrow> string \<Rightarrow> call list \<Rightarrow> pyval \<times> call list" where
  "fetch_asset E pattern html tr =
     (case findall_first pattern html of
        Inl e \<Rightarrow> (PNone, tr)
      | Inr url \<Rightarrow>
          (case requests_get E url of
             Inl e \<Rightarrow> (PNone, tr @ [Call_requests_get url])
           | Inr r \<Rightarrow> (PStr (b64encode (content r)), tr @ [Call_requests_get url])))"

definition parse_dnsdumpster ::
  "env \<Rightarrow> client \<Rightarrow> string \<Rightarrow> string \<Rightarrow> call list \<Rightarrow> (error + pyval) \<times> call list" where
  "parse_dnsdumpster E self html domain tr =
     (let soup = BeautifulSoup E html;
          tr1 = tr @ [Call_BeautifulSoup html];
          tables = findAll soup ''table''
      in
      if length tables \<ge> 4 then
        (let a = retrieve_results (tables ! 1);
             mx = retrieve_results (tables ! 2);
             ns = retrieve_results (tables ! 3)
         in
         case py_index tables 4 of Inl e \<Rightarrow> (Inl e, tr1) | Inr table4 \<Rightarrow>
         let txt = retrieve_txt_record table4;
             dns_records = PDict [(''a'', PList a), (''mx'', PList mx), (''ns'', PList ns),
                                  (''txt'', PList txt)];
             (image_data, tr2) = fetch_asset E (pattern_asset ''maps'' domain ''png'') html tr1;
             (xls_data, tr3) = fetch_asset E (pattern_asset ''xlsx'' domain ''xlsx'') html tr2
         in (Inr (PDict [(''domain'', PStr domain), (''dns_records'', dns_records),
                         (''image_data'', image_data), (''xls_data'', xls_data)]), tr3))
      else (Inr PNone, tr1))"

subsection \<open>search\<close>

text \<open>\<^verbatim>\<open>if html\<close> holds for a text that is not empty.\<close>

definition search ::
  "env \<Rightarrow> client \<Rightarrow> string \<Rightarrow> call list \<Rightarrow> (error + pyval) \<times> call list" where
  "search E self domain tr =
     (case get_dnsdumpster E self domain tr of
        (Inl e, tr1) \<Rightarrow> (Inl e, tr1)
      | (Inr None, tr1) \<Rightarrow> (Inr PNone, tr1)
      | (Inr (Some html), tr1) \<Rightarrow>
          if html \<noteq> [] then parse_dnsdumpster E self html domain tr1
          else (Inr PNone, tr1))"

subsection \<open>What the specification calls a dotted quad and a pattern match\<close>

text \<open>
  These predicates state the patterns in words, apart from the matcher: a dotted quad is
  four groups of one to three digits separated by dots; a pattern occurs in a text when
  some part of the text is accepted by it, and it accepts a text that splits into one
  run of allowed characters per atom, each of a length the atom admits.
\<close>

definition digit_group :: "string \<Rightarrow> bool" where
  "digit_group g = (1 \<le> length g \<and> length g \<le> 3 \<and> list_all isdigit g)"

definition dotted_quad :: "string \<Rightarrow> bool" where
  "dotted_quad q = (\<exists>a b c d. q = a @ ''.'' @ b @ ''.'' @ c @ ''.'' @ d \<and>
      digit_group a \<and> digit_group b \<and> digit_group c \<and> digit_group d)"

definition contains_dotted_quad :: "string \<Rightarrow> bool" where
  "contains_dotted_quad t = (\<exists>pre q post. t = pre @ q @ post \<and> dotted_quad q)"

fun within :: "nat \<Rightarrow> nat \<Rightarrow> nat option \<Rightarrow> bool" where
  "within n lo None = (lo \<le> n)"
| "within n lo (Some h) = (lo \<le> n \<and> n \<le> h)"

fun accepts :: "atom list \<Rightarrow> string \<Rightarrow> bool" where
  "accepts [] m = (m = [])"
| "accepts (Rep p lo hi # r) m =
     (\<exists>g m'. m = g @ m' \<and> within (length g) lo hi \<and> list_all p g \<and> accepts r m')"

definition occurs :: "atom list \<Rightarrow> string \<Rightarrow> bool" where
  "occurs r s = (\<exists>pre m post. s = pre @ m @ post \<and> accepts r m)"

subsection \<open>Example documents and worlds\<close>

text \<open>
  Small pages built from cells of plain text, the text a page is written as, and a world
  in which the HTML parser reads that text back as the page and every request has one
  fixed outcome.
\<close>

definition ex_td :: "string \<Rightarrow> node" where
  "ex_td s = Tag ''td'' [] [NavigableString s]"

definition ex_row :: "string list \<Rightarrow> node" where
  "ex_row cells = Tag ''tr'' [] (map ex_td cells)"

definition ex_table :: "string list list \<Rightarrow> node" where
  "ex_table rows = Tag ''table'' [] (map ex_row rows)"

definition ex_page :: "string list list list \<Rightarrow> node" where
  "ex_page tables = Tag ''[document]'' [] (map ex_table tables)"

fun written :: "node \<Rightarrow> string" where
  "written (Tag n as cs) = concat (map (decode_in n) cs)"
| "written (NavigableString s) = substitute_xml s"
| "written (OtherString k s) = decode_in [] (OtherString k s)"

definition ex_response :: "nat \<Rightarrow> string \<Rightarrow> error + response" where
  "ex_response status body = Inr \<lparr>status_code = status, resp_text = body, content = body\<rparr>"

definition ex_world :: "node \<Rightarrow> error + response \<Rightarrow> error + response \<Rightarrow> env" where
  "ex_world page posted asset =
     \<lparr>BeautifulSoup =
        (\<lambda>h. if h = written page then page else Tag ''[document]'' [] [NavigableString h]),
      requests_get = (\<lambda>u. asset),
      requests_post = (\<lambda>u h d. posted)\<rparr>"

definition ex_client :: client where
  "ex_client = \<lparr>verbose = False, authorization = Some ''token''\<rparr>"

definition ex_client_no_token :: client where
  "ex_client_no_token = \<lparr>verbose = False, authorization = None\<rparr>"

definition page5 :: node where
  "page5 = ex_page [[], [[''ns1.example.com'', ''192.0.2.1'']], [], [],
                    [['' v=spf1 -all '', ''k=v '']]]"

definition page4 :: node where
  "page4 = ex_page [[], [[''ns1.example.com'', ''192.0.2.1'']], [], []]"

definition page_with_map :: node where
  "page_with_map =
     ex_page [[[''https://api.dnsdumpster.com/static/maps/example.com-0a1b-2c3d.png'']],
              [[''ns1.example.com'', ''192.0.2.1'']], [], [], [[''k=v'']]]"

definition row_one_break :: node where
  "row_one_break = ex_row [''ns1.example.com'', ''192.0.2.1'', ''AS64500'' @ [LF] @ ''192.0.2.0/24'']"

definition row_two_breaks :: node where
  "row_two_breaks =
     ex_row [''ns1.example.com'', ''192.0.2.1'', [LF] @ ''AS64500'' @ [LF] @ ''192.0.2.0/24'']"

definition row_no_break :: node where
  "row_no_break = ex_row [''ns1.example.com'', ''192.0.2.1'', ''AS64500 192.0.2.0/24'']"

definition table_mixed :: node where
  "table_mixed = ex_table [[''a.example.com'', ''192.0.2.1''],
                           [''b.example.com'', ''no address''],
                           [''c.example.com'', ''192.0.2.3'']]"

definition row_na5 :: node where
  "row_na5 = ex_row [''ns1.example.com'', ''192.0.2.1'', [], [], ''N/A'']"

definition row_services :: node where
  "row_services =
     ex_row [''ns1.example.com'', ''192.0.2.1'', [], [], '' http '' @ [LF, LF] @ '' ssh '' @ [LF]]"

definition row_short :: node where
  "row_short = ex_row [''ns1.example.com'', ''192.0.2.1'']"

text \<open>
  Cells that hold strings of the other classes: a second cell whose only dotted quad is
  the text of a \<^verbatim>\<open>script\<close> element, one with such a script before its address, and a
  cell with attributes, a comment and a line break element.
\<close>

definition row_script_only :: node where
  "row_script_only =
     Tag ''tr'' []
       [ex_td ''s.example.com'',
        Tag ''td'' [] [Tag ''script'' [] [OtherString Script ''1.2.3.4'']]]"

definition row_script_first :: node where
  "row_script_first =
     Tag ''tr'' []
       [ex_td ''t.example.com'',
        Tag ''td'' [] [Tag ''script'' [] [OtherString Script ''9.9.9.9''],
                       NavigableString ''5.6.7.8'']]"

definition table_scripts :: node where
  "table_scripts = Tag ''table'' [] [row_script_only, row_script_first]"

definition cell_mixed :: node where
  "cell_mixed =
     Tag ''td'' [(''id'', Single ''x''), (''class'', Multi [''col-md-4'', ''a''])]
       [OtherString Comment ''note'', NavigableString ''ns1.example.com'', Tag ''br'' [] [],
        Tag ''script'' [] [OtherString Script ''a<b''], NavigableString ''a<b'']"

section \<open>Lemmas\<close>

subsection \<open>The loops and the parser\<close>

lemma retrieve_loop_map_filter:
  "retrieve_loop trs res =
     res @ List.map_filter (\<lambda>tr. case extract_row tr of Inr d \<Rightarrow> Some d | Inl e \<Rightarrow> None) trs"
  by (induction trs arbitrary: res) (simp_all add: List.map_filter_simps split: sum.splits)

lemma txt_loop_map: "txt_loop tds res = res @ map (\<lambda>td. PStr (strip (get_text td))) tds"
  by (induction tds arbitrary: res) simp_all

lemma fst_fetch_asset:
  "fst (fetch_asset E p html tr) =
     (case re_search p html of
        None \<Rightarrow> PNone
      | Some url \<Rightarrow> (case requests_get E url of Inl e \<Rightarrow> PNone | Inr r \<Rightarrow> PStr (b64encode (content r))))"
  by (simp add: fetch_asset_def findall_first_def split: option.splits sum.splits)

lemma snd_fetch_asset:
  "snd (fetch_asset E p html tr) =
     (case re_search p html of None \<Rightarrow> tr | Some url \<Rightarrow> tr @ [Call_requests_get url])"
  by (simp add: fetch_asset_def findall_first_def split: option.splits sum.splits)

lemma parse_at_least_5_tables:
  assumes "5 \<le> length (findAll (BeautifulSoup E html) ''table'')"
  shows "parse_dnsdumpster E self html domain tr =
     (let tables = findAll (BeautifulSoup E html) ''table'';
          tr1 = tr @ [Call_BeautifulSoup html];
          img = fetch_asset E (pattern_asset ''maps'' domain ''png'') html tr1;
          xls = fetch_asset E (pattern_asset ''xlsx'' domain ''xlsx'') html (snd img)
      in (Inr (PDict [(''domain'', PStr domain),
                      (''dns_records'',
                         PDict [(''a'', PList (retrieve_results (tables ! 1))),
                                (''mx'', PList (retrieve_results (tables ! 2))),
                                (''ns'', PList (retrieve_results (tables ! 3))),
                                (''txt'', PList (retrieve_txt_record (tables ! 4)))]),
                      (''image_data'', fst img), (''xls_data'', fst xls)]), snd xls))"
  using assms
  by (simp add: parse_dnsdumpster_def py_index_def Let_def split_beta)

lemma parse_fewer_than_4_tables:
  assumes "length (findAll (BeautifulSoup E html) ''table'') < 4"
  shows "parse_dnsdumpster E self html domain tr = (Inr PNone, tr @ [Call_BeautifulSoup html])"
  using assms by (simp add: parse_dnsdumpster_def Let_def)

lemma parse_exactly_4_tables:
  assumes "length (findAll (BeautifulSoup E html) ''table'') = 4"
  shows "parse_dnsdumpster E self html domain tr = (Inl IndexError, tr @ [Call_BeautifulSoup html])"
  using assms by (simp add: parse_dnsdumpster_def Let_def py_index_def)

subsection \<open>The matcher finds exactly what the patterns describe\<close>

lemma re_try_first_some:
  "re_try r s ns =
     first_some (\<lambda>n. map_option (\<lambda>m. take n s @ m) (re_match r (drop n s))) ns"
  by (induction ns) (auto split: option.splits)

lemma re_match_Cons [simp]:
  "re_match (a # r) s =
     first_some (\<lambda>n. map_option (\<lambda>m. take n s @ m) (re_match r (drop n s))) (counts a s)"
  by (simp add: re_try_first_some)

declare re_match.simps(2) [simp del]

lemma first_some_Some:
  "first_some f xs = Some y \<Longrightarrow> \<exists>x \<in> set xs. f x = Some y"
  by (induction xs) (auto split: option.splits)

lemma first_some_None: "first_some f xs = None \<longleftrightarrow> (\<forall>x \<in> set xs. f x = None)"
  by (induction xs) (auto split: option.splits)

lemma first_some_not_None: "x \<in> set xs \<Longrightarrow> f x \<noteq> None \<Longrightarrow> first_some f xs \<noteq> None"
  by (simp add: first_some_None) blast

lemma in_counts:
  "n \<in> set (counts (Rep p lo hi) s) \<longleftrightarrow> within n lo hi \<and> n \<le> length (takeWhile p s)"
  by (cases hi) (auto simp: counts.simps Let_def simp del: upt_Suc)

declare counts.simps [simp del]

lemma take_takeWhile: "n \<le> length (takeWhile p s) \<Longrightarrow> list_all p (take n s)"
proof (induction s arbitrary: n)
  case Nil then show ?case by simp
next
  case (Cons c s) then show ?case by (cases n) (auto split: if_splits)
qed

lemma prefix_all_takeWhile: "list_all p g \<Longrightarrow> length g \<le> length (takeWhile p (g @ s))"
  by (induction g) auto

lemma re_match_sound:
  "re_match r s = Some m \<Longrightarrow> accepts r m \<and> prefix m s"
proof (induction r arbitrary: s m)
  case Nil then show ?case by simp
next
  case (Cons a r)
  obtain p lo hi where a: "a = Rep p lo hi" by (cases a)
  from Cons.prems obtain n where n: "n \<in> set (counts a s)"
    and f: "map_option (\<lambda>m. take n s @ m) (re_match r (drop n s)) = Some m"
    by (auto dest!: first_some_Some)
  from f obtain m' where m': "re_match r (drop n s) = Some m'" and m: "m = take n s @ m'"
    by auto
  from Cons.IH[OF m'] have acc: "accepts r m'" and pre: "prefix m' (drop n s)" by auto
  from n a have w: "within n lo hi" and le: "n \<le> length (takeWhile p s)"
    by (auto simp: in_counts)
  have len: "n \<le> length s" using le length_takeWhile_le[of p s] by linarith
  have "m = take n s @ m' \<and> within (length (take n s)) lo hi \<and> list_all p (take n s) \<and> accepts r m'"
    using m w acc take_takeWhile[OF le] len by simp
  then have "accepts (a # r) m"
    unfolding a accepts.simps by blast
  moreover have "prefix m s"
    using pre unfolding m prefix_def by (metis append.assoc append_take_drop_id)
  ultimately show ?case by simp
qed

lemma re_match_complete:
  "accepts r m \<Longrightarrow> \<exists>m'. re_match r (m @ rest) = Some m'"
proof (induction r arbitrary: m)
  case Nil then show ?case by simp
next
  case (Cons a r)
  obtain p lo hi where a: "a = Rep p lo hi" by (cases a)
  from Cons.prems a obtain g m1 where m: "m = g @ m1" and w: "within (length g) lo hi"
    and pg: "list_all p g" and acc: "accepts r m1" by auto
  from Cons.IH[OF acc] obtain m2 where m2: "re_match r (m1 @ rest) = Some m2" by blast
  have "length g \<in> set (counts a (m @ rest))"
    unfolding a in_counts using w prefix_all_takeWhile[OF pg, of "m1 @ rest"] m by simp
  moreover have "map_option (\<lambda>x. take (length g) (m @ rest) @ x) (re_match r (drop (length g) (m @ rest))) \<noteq> None"
    using m2 m by simp
  ultimately have "first_some (\<lambda>n. map_option (\<lambda>x. take n (m @ rest) @ x) (re_match r (drop n (m @ rest)))) (counts a (m @ rest)) \<noteq> None"
    by (rule first_some_not_None)
  then show ?case by (simp only: re_match_Cons not_None_eq)
qed

lemma re_search_Some:
  "re_search r s = Some m \<Longrightarrow>
     \<exists>pre post. s = pre @ m @ post \<and> re_match r (m @ post) = Some m \<and>
        (\<forall>k < length pre. re_match r (drop k s) = None)"
proof (induction s)
  case Nil
  then have "re_match r [] = Some m" by simp
  moreover from re_match_sound[OF this] have "m = []" by simp
  ultimately show ?case by simp
next
  case (Cons c cs)
  show ?case
  proof (cases "re_match r (c # cs)")
    case (Some m0)
    with Cons.prems have eq: "m0 = m" by simp
    from re_match_sound[OF Some] eq obtain post where "c # cs = m @ post"
      by (auto simp: prefix_def)
    with Some eq show ?thesis by (intro exI[of _ "[]"] exI[of _ post]) simp
  next
    case None
    with Cons.prems have "re_search r cs = Some m" by simp
    from Cons.IH[OF this] obtain pre post where s: "cs = pre @ m @ post"
      and mm: "re_match r (m @ post) = Some m"
      and first: "\<forall>k < length pre. re_match r (drop k cs) = None" by blast
    have "\<forall>k < length (c # pre). re_match r (drop k (c # cs)) = None"
    proof (intro allI impI)
      fix k assume "k < length (c # pre)"
      then show "re_match r (drop k (c # cs)) = None"
        using None first by (cases k) auto
    qed
    with s mm show ?thesis by (intro exI[of _ "c # pre"] exI[of _ post]) simp
  qed
qed

lemma re_search_None:
  "re_search r s = None \<Longrightarrow> k \<le> length s \<Longrightarrow> re_match r (drop k s) = None"
proof (induction s arbitrary: k)
  case Nil then show ?case by simp
next
  case (Cons c cs) then show ?case by (cases k) (auto split: option.splits)
qed

lemma re_search_None_accepts:
  assumes "re_search r s = None" shows "\<not> (\<exists>pre m post. s = pre @ m @ post \<and> accepts r m)"
proof
  assume "\<exists>pre m post. s = pre @ m @ post \<and> accepts r m"
  then obtain pre m post where s: "s = pre @ m @ post" and acc: "accepts r m" by blast
  from re_match_complete[OF acc, of post] obtain m' where "re_match r (m @ post) = Some m'" by blast
  moreover have "re_match r (drop (length pre) s) = None"
    using re_search_None[OF assms, of "length pre"] s by simp
  ultimately show False using s by simp
qed

lemma accepts_Lit: "accepts (Lit c # r) m \<longleftrightarrow> (\<exists>m'. m = c # m' \<and> accepts r m')"
proof
  assume "accepts (Lit c # r) m"
  then obtain g m' where m: "m = g @ m'" and l: "length g = 1" and p: "list_all (\<lambda>x. x = c) g" and a: "accepts r m'"
    by (auto simp: Lit_def)
  from l p have "g = [c]" by (cases g) auto
  with m a show "\<exists>m'. m = c # m' \<and> accepts r m'" by simp
next
  assume "\<exists>m'. m = c # m' \<and> accepts r m'"
  then obtain m' where "m = [c] @ m'" "accepts r m'" by auto
  then show "accepts (Lit c # r) m" unfolding Lit_def accepts.simps
    by (intro exI[of _ "[c]"] exI[of _ m']) simp
qed

lemma accepts_digits: "accepts (Rep isdigit 1 (Some 3) # r) m \<longleftrightarrow> (\<exists>g m'. m = g @ m' \<and> digit_group g \<and> accepts r m')"
  by (auto simp: digit_group_def)

lemma accepts_pattern_ip: "accepts pattern_ip q \<longleftrightarrow> dotted_quad q"
  unfolding pattern_ip_def dotted_quad_def accepts_digits accepts_Lit
  apply (simp only: accepts.simps)
  apply (rule iffI)
   apply auto[1]
  apply (elim exE conjE)
  subgoal for a b c d
    apply (rule exI[of _ a], rule exI[of _ "''.'' @ b @ ''.'' @ c @ ''.'' @ d"], simp)
    apply (rule exI[of _ b], rule exI[of _ "''.'' @ c @ ''.'' @ d"], simp)
    apply (rule exI[of _ c], rule exI[of _ "''.'' @ d"], simp)
    done
  done

lemma re_search_None_iff: "re_search r s = None \<longleftrightarrow> \<not> occurs r s"
proof
  assume "re_search r s = None"
  from re_search_None_accepts[OF this] show "\<not> occurs r s" by (simp add: occurs_def)
next
  assume n: "\<not> occurs r s"
  show "re_search r s = None"
  proof (rule ccontr)
    assume "re_search r s \<noteq> None"
    then obtain m where "re_search r s = Some m" by auto
    from re_search_Some[OF this] obtain pre post where s: "s = pre @ m @ post"
      and mm: "re_match r (m @ post) = Some m" by blast
    from re_match_sound[OF mm] have "accepts r m" by simp
    with s n show False by (auto simp: occurs_def)
  qed
qed

lemma contains_dotted_quad_occurs: "contains_dotted_quad t \<longleftrightarrow> occurs pattern_ip t"
  by (simp add: contains_dotted_quad_def occurs_def accepts_pattern_ip)

lemma re_search_ip_None_iff: "re_search pattern_ip t = None \<longleftrightarrow> \<not> contains_dotted_quad t"
  by (simp add: re_search_None_iff contains_dotted_quad_occurs)

lemma re_search_leftmost:
  assumes "re_search r s = Some m"
  shows "\<exists>pre post. s = pre @ m @ post \<and> accepts r m \<and>
           (\<forall>pre' q post'. s = pre' @ q @ post' \<and> accepts r q \<longrightarrow> length pre \<le> length pre')"
proof -
  from re_search_Some[OF assms] obtain pre post where s: "s = pre @ m @ post"
    and mm: "re_match r (m @ post) = Some m"
    and first: "\<forall>k < length pre. re_match r (drop k s) = None" by blast
  have "length pre \<le> length pre'" if q: "s = pre' @ q @ post'" "accepts r q" for pre' q post'
  proof (rule ccontr)
    assume "\<not> length pre \<le> length pre'"
    then have "re_match r (drop (length pre') s) = None" using first by simp
    moreover have "drop (length pre') s = q @ post'" using q(1) by simp
    ultimately show False using re_match_complete[OF q(2), of post'] by simp
  qed
  moreover from re_match_sound[OF mm] have "accepts r m" by simp
  ultimately show ?thesis using s by blast
qed

lemma length_split_from_char:
  "length (split_from [c] cur s) = Suc (count_list s c)"
  by (induction s arbitrary: cur) auto

lemma length_split_char: "length (split s [c]) = Suc (count_list s c)"
  by (simp add: split_def length_split_from_char)

lemma count_list_pos_iff: "c \<in> set s \<longleftrightarrow> 0 < count_list s c"
  by (induction s) auto

subsection \<open>One row\<close>

lemma py_index_error: "py_index xs i = Inl e \<Longrightarrow> e = IndexError"
  by (simp add: py_index_def split: if_splits)

lemma findall_first_error: "findall_first r s = Inl e \<Longrightarrow> e = IndexError"
  by (simp add: findall_first_def split: option.splits)

lemma extract_row_error: "extract_row tr = Inl e \<Longrightarrow> e = IndexError"
  unfolding extract_row_def Let_def
  by (auto split: sum.splits if_splits dest: py_index_error findall_first_error)

lemma extract_row_Inr:
  assumes "extract_row tr = Inr d"
  shows "\<exists>host ip asn asn_range.
     d = PDict [(''host'', PStr host), (''ip'', PStr ip),
                (''reverse_dns'', PStr (case find_tag (findAll tr ''td'' ! 1) ''span'' of
                                          Some sp \<Rightarrow> get_text sp | None \<Rightarrow> [])),
                (''as'', PStr asn), (''asn_range'', PStr asn_range),
                (''asn_name'', PStr (if length (findAll tr ''td'') > 3 \<and> length (find_all_class (findAll tr ''td'' ! 3) ''span'' ''sm-text'') > 0
                    then strip (get_text (find_all_class (findAll tr ''td'' ! 3) ''span'' ''sm-text'' ! 0)) else [])),
                (''asn_country'', PStr (if length (findAll tr ''td'') > 3 \<and> length (find_all_class (findAll tr ''td'' ! 3) ''span'' ''sm-text'') > 1
                    then strip (get_text (find_all_class (findAll tr ''td'' ! 3) ''span'' ''sm-text'' ! 1)) else [])),
                (''open_service'', PStr (if length (findAll tr ''td'') > 4
                    then service_lines (get_text (findAll tr ''td'' ! 4)) else ''N/A''))] \<and>
     1 < length (findAll tr ''td'') \<and>
     re_search pattern_ip (get_text (findAll tr ''td'' ! 1)) = Some ip \<and>
     (if 2 < length (findAll tr ''td'') \<and> LF \<in> set (get_text (findAll tr ''td'' ! 2))
      then py_index (split (get_text (findAll tr ''td'' ! 2)) [LF]) 1 = Inr asn \<and>
           py_index (split (get_text (findAll tr ''td'' ! 2)) [LF]) 2 = Inr asn_range
      else asn = [] \<and> asn_range = [])"
  using assms unfolding extract_row_def Let_def
  by (auto simp: py_index_def findall_first_def split: sum.splits if_splits option.splits)

lemma in_set_map_filter:
  "y \<in> set (List.map_filter f xs) \<longleftrightarrow> (\<exists>x \<in> set xs. f x = Some y)"
  by (induction xs) (auto simp: List.map_filter_simps split: option.splits)

lemma extract_row_no_ip:
  assumes "length (findAll tr ''td'') < 2 \<or>
           \<not> contains_dotted_quad (get_text (findAll tr ''td'' ! 1))"
  shows "extract_row tr = Inl IndexError"
proof (cases "extract_row tr")
  case (Inl e)
  then show ?thesis by (auto dest: extract_row_error)
next
  case (Inr d)
  from extract_row_Inr[OF Inr] obtain ip where "1 < length (findAll tr ''td'')"
    and "re_search pattern_ip (get_text (findAll tr ''td'' ! 1)) = Some ip" by blast
  with assms show ?thesis by (auto simp: re_search_ip_None_iff[symmetric])
qed

lemma snd_get_dnsdumpster:
  "snd (get_dnsdumpster E self target tr) =
     (case authorization self of
        None \<Rightarrow> tr
      | Some token \<Rightarrow>
          if token = [] then tr
          else tr @ [Call_requests_post ''https://api.dnsdumpster.com/htmld/''
                       [(''Authorization'', token)] [(''target'', target)]])"
  by (simp add: get_dnsdumpster_def Let_def split: option.splits sum.splits)

lemma parser_calls_get_dnsdumpster:
  "filter is_parser_call (snd (get_dnsdumpster E self target tr)) = filter is_parser_call tr"
  by (simp add: snd_get_dnsdumpster split: option.splits)

lemma search_no_html:
  assumes "fst (get_dnsdumpster E self domain tr) = Inr None \<or>
           fst (get_dnsdumpster E self domain tr) = Inr (Some [])"
  shows "search E self domain tr = (Inr PNone, snd (get_dnsdumpster E self domain tr))"
  using assms by (cases "get_dnsdumpster E self domain tr") (auto simp: search_def)

lemma fetch_asset_no_occurrence:
  "\<not> occurs p html \<Longrightarrow> fst (fetch_asset E p html tr) = PNone"
  by (simp add: fst_fetch_asset re_search_None_iff[symmetric])

subsection \<open>Writing and reading a cell with strings of several classes\<close>

text \<open>
  On the example cell, \<^verbatim>\<open>str(td)\<close> writes the attributes by name, the comment between
  its marks and the script text as it is, while \<^verbatim>\<open>td.text\<close> keeps the two plain strings
  only.
\<close>

lemma cell_mixed_decode_and_text:
  "decode cell_mixed =
     ''<td class='' @ [CHR 0x22] @ ''col-md-4 a'' @ [CHR 0x22] @ '' id='' @ [CHR 0x22] @ ''x'' @
     [CHR 0x22] @ ''><!--note-->ns1.example.com<br/><script>a<b</script>a&lt;b</td>'' \<and>
   get_text cell_mixed = ''ns1.example.coma<b''"
  by code_simp

section \<open>The claims\<close>

text \<open>
  C1. With fewer than five tables the parser is expected to return \<^verbatim>\<open>None\<close>. The guard
  of the source is \<^verbatim>\<open>len(tables) >= 4\<close> while the body reads \<^verbatim>\<open>tables[4]\<close>: on a
  document with exactly four tables the parser raises IndexError, and only the call of
  the HTML parser has been made.
\<close>

theorem parse_four_tables_raises:
  assumes "length (findAll (BeautifulSoup E html) ''table'') = 4"
  shows "parse_dnsdumpster E self html domain tr = (Inl IndexError, tr @ [Call_BeautifulSoup html])"
  using assms by (rule parse_exactly_4_tables)

theorem parse_four_tables_raises_witness:
  "written page4 =
     ''<table></table><table><tr><td>ns1.example.com</td><td>192.0.2.1</td></tr></table><table></table><table></table>'' \<and>
   length (findAll (BeautifulSoup (ex_world page4 (ex_response 200 (written page4)) (Inl RequestException))
                      (written page4)) ''table'') = 4 \<and>
   parse_dnsdumpster (ex_world page4 (ex_response 200 (written page4)) (Inl RequestException))
       ex_client (written page4) ''example.com'' [] =
     (Inl IndexError, [Call_BeautifulSoup (written page4)])"
proof -
  have w: "written page4 =
     ''<table></table><table><tr><td>ns1.example.com</td><td>192.0.2.1</td></tr></table><table></table><table></table>''"
    by code_simp
  have h: "length (findAll (BeautifulSoup (ex_world page4 (ex_response 200 (written page4)) (Inl RequestException))
                      (written page4)) ''table'') = 4"
    by code_simp
  from parse_four_tables_raises[OF h, of ex_client "''example.com''" "[]"] w h
  show ?thesis by simp
qed

text \<open>
  C2. A third cell whose text has exactly one line break passes the guard
  \<^verbatim>\<open>'\n' in autonomous_system\<close>, and \<^verbatim>\<open>split('\n')[2]\<close> then raises IndexError: the
  row is dropped, whatever its other cells hold.
\<close>

theorem third_cell_one_line_break_raises:
  assumes "2 < length (findAll tr ''td'')"
    and "count_list (get_text (findAll tr ''td'' ! 2)) LF = 1"
  shows "extract_row tr = Inl IndexError \<and> retrieve_loop [tr] res = res"
proof -
  have mem: "LF \<in> set (get_text (findAll tr ''td'' ! 2))"
    using assms(2) by (simp add: count_list_pos_iff)
  have len: "length (split (get_text (findAll tr ''td'' ! 2)) [LF]) = 2"
    using assms(2) by (simp add: length_split_char)
  have no: "extract_row tr \<noteq> Inr d" for d
  proof
    assume "extract_row tr = Inr d"
    from extract_row_Inr[OF this] assms(1) mem
    obtain asn_range where "py_index (split (get_text (findAll tr ''td'' ! 2)) [LF]) 2 = Inr asn_range"
      by auto
    with len show False by (simp add: py_index_def)
  qed
  then have e: "extract_row tr = Inl IndexError"
    by (cases "extract_row tr") (auto dest: extract_row_error)
  then show ?thesis by simp
qed

theorem third_cell_one_line_break_raises_witness:
  "2 < length (findAll row_one_break ''td'') \<and>
   count_list (get_text (findAll row_one_break ''td'' ! 2)) LF = 1 \<and>
   extract_row row_one_break = Inl IndexError \<and>
   retrieve_loop [row_one_break] [] = [] \<and>
   extract_row row_no_break =
     Inr (PDict [(''host'', PStr ''ns1.example.com''), (''ip'', PStr ''192.0.2.1''),
                 (''reverse_dns'', PStr []), (''as'', PStr []), (''asn_range'', PStr []),
                 (''asn_name'', PStr []), (''asn_country'', PStr []),
                 (''open_service'', PStr ''N/A'')]) \<and>
   extract_row row_two_breaks =
     Inr (PDict [(''host'', PStr ''ns1.example.com''), (''ip'', PStr ''192.0.2.1''),
                 (''reverse_dns'', PStr []), (''as'', PStr ''AS64500''),
                 (''asn_range'', PStr ''192.0.2.0/24''),
                 (''asn_name'', PStr []), (''asn_country'', PStr []),
                 (''open_service'', PStr ''N/A'')])"
proof -
  have h1: "2 < length (findAll row_one_break ''td'')" by code_simp
  have h2: "count_list (get_text (findAll row_one_break ''td'' ! 2)) LF = 1" by code_simp
  have a: "extract_row row_no_break =
     Inr (PDict [(''host'', PStr ''ns1.example.com''), (''ip'', PStr ''192.0.2.1''),
                 (''reverse_dns'', PStr []), (''as'', PStr []), (''asn_range'', PStr []),
                 (''asn_name'', PStr []), (''asn_country'', PStr []),
                 (''open_service'', PStr ''N/A'')])" by code_simp
  have b: "extract_row row_two_breaks =
     Inr (PDict [(''host'', PStr ''ns1.example.com''), (''ip'', PStr ''192.0.2.1''),
                 (''reverse_dns'', PStr []), (''as'', PStr ''AS64500''),
                 (''asn_range'', PStr ''192.0.2.0/24''),
                 (''asn_name'', PStr []), (''asn_country'', PStr []),
                 (''open_service'', PStr ''N/A'')])" by code_simp
  from third_cell_one_line_break_raises[OF h1 h2, of "[]"] h1 h2 a b show ?thesis by simp
qed

text \<open>
  C7. With at least five tables the parser returns a result whose \<^verbatim>\<open>txt\<close> list has one
  entry for each cell of the table at index 4, in document order, and each entry is the
  stripped text of its cell.
\<close>

theorem txt_one_entry_per_cell:
  assumes "5 \<le> length (findAll (BeautifulSoup E html) ''table'')"
  shows "\<exists>res tr' dns.
           parse_dnsdumpster E self html domain tr = (Inr res, tr') \<and>
           dict_get res ''dns_records'' = Some dns \<and>
           dict_get dns ''txt'' =
             Some (PList (map (\<lambda>td. PStr (strip (get_text td)))
                              (findAll (findAll (BeautifulSoup E html) ''table'' ! 4) ''td'')))"
  unfolding parse_at_least_5_tables[OF assms] Let_def
  by (simp add: retrieve_txt_record_def txt_loop_map)

theorem txt_one_entry_per_cell_witness:
  "5 \<le> length (findAll (BeautifulSoup (ex_world page5 (ex_response 200 (written page5)) (Inl RequestException))
                          (written page5)) ''table'') \<and>
   (\<exists>res tr' dns.
      parse_dnsdumpster (ex_world page5 (ex_response 200 (written page5)) (Inl RequestException))
          ex_client (written page5) ''example.com'' [] = (Inr res, tr') \<and>
      dict_get res ''dns_records'' = Some dns \<and>
      dict_get dns ''txt'' = Some (PList [PStr ''v=spf1 -all'', PStr ''k=v'']))"
proof -
  let ?E = "ex_world page5 (ex_response 200 (written page5)) (Inl RequestException)"
  have h: "5 \<le> length (findAll (BeautifulSoup ?E (written page5)) ''table'')" by code_simp
  have e: "map (\<lambda>td. PStr (strip (get_text td)))
             (findAll (findAll (BeautifulSoup ?E (written page5)) ''table'' ! 4) ''td'') =
           [PStr ''v=spf1 -all'', PStr ''k=v'']" by code_simp
  from txt_one_entry_per_cell[OF h, of ex_client "''example.com''" "[]"] h
  show ?thesis unfolding e by simp
qed

text \<open>
  C8. Every result of the parser that is not \<^verbatim>\<open>None\<close> is a dictionary with exactly the
  keys domain, dns\_records, image\_data and xls\_data; its domain is the argument
  \<open>domain\<close>, and dns\_records is a dictionary with exactly the keys a, mx, ns and txt.
\<close>

theorem result_shape_and_domain:
  assumes "parse_dnsdumpster E self html domain tr = (Inr res, tr')" and "res \<noteq> PNone"
  shows "dict_get res ''domain'' = Some (PStr domain) \<and>
         dict_keys res = [''domain'', ''dns_records'', ''image_data'', ''xls_data''] \<and>
         (\<exists>dns. dict_get res ''dns_records'' = Some dns \<and>
                dict_keys dns = [''a'', ''mx'', ''ns'', ''txt''])"
proof -
  let ?n = "length (findAll (BeautifulSoup E html) ''table'')"
  consider "?n < 4" | "?n = 4" | "5 \<le> ?n" by linarith
  then show ?thesis
  proof cases
    case 1
    from parse_fewer_than_4_tables[OF 1] assms show ?thesis by simp
  next
    case 2
    from parse_exactly_4_tables[OF 2] assms show ?thesis by simp
  next
    case 3
    from assms(1) show ?thesis
      unfolding parse_at_least_5_tables[OF 3] Let_def by auto
  qed
qed

theorem result_shape_and_domain_witness:
  "parse_dnsdumpster (ex_world page5 (ex_response 200 (written page5)) (Inl RequestException))
       ex_client (written page5) ''example.com'' [] =
     (Inr (PDict [(''domain'', PStr ''example.com''),
                  (''dns_records'',
                     PDict [(''a'', PList [PDict [(''host'', PStr ''ns1.example.com''),
                                                 (''ip'', PStr ''192.0.2.1''),
                                                 (''reverse_dns'', PStr []), (''as'', PStr []),
                                                 (''asn_range'', PStr []), (''asn_name'', PStr []),
                                                 (''asn_country'', PStr []),
                                                 (''open_service'', PStr ''N/A'')]]),
                            (''mx'', PList []), (''ns'', PList []),
                            (''txt'', PList [PStr ''v=spf1 -all'', PStr ''k=v''])]),
                  (''image_data'', PNone), (''xls_data'', PNone)]),
      [Call_BeautifulSoup (written page5)]) \<and>
   dict_get (PDict [(''domain'', PStr ''example.com''),
                  (''dns_records'',
                     PDict [(''a'', PList [PDict [(''host'', PStr ''ns1.example.com''),
                                                 (''ip'', PStr ''192.0.2.1''),
                                                 (''reverse_dns'', PStr []), (''as'', PStr []),
                                                 (''asn_range'', PStr []), (''asn_name'', PStr []),
                                                 (''asn_country'', PStr []),
                                                 (''open_service'', PStr ''N/A'')]]),
                            (''mx'', PList []), (''ns'', PList []),
                            (''txt'', PList [PStr ''v=spf1 -all'', PStr ''k=v''])]),
                  (''image_data'', PNone), (''xls_data'', PNone)]) ''domain'' = Some (PStr ''example.com'')"
proof -
  let ?res = "PDict [(''domain'', PStr ''example.com''),
                  (''dns_records'',
                     PDict [(''a'', PList [PDict [(''host'', PStr ''ns1.example.com''),
                                                 (''ip'', PStr ''192.0.2.1''),
                                                 (''reverse_dns'', PStr []), (''as'', PStr []),
                                                 (''asn_range'', PStr []), (''asn_name'', PStr []),
                                                 (''asn_country'', PStr []),
                                                 (''open_service'', PStr ''N/A'')]]),
                            (''mx'', PList []), (''ns'', PList []),
                            (''txt'', PList [PStr ''v=spf1 -all'', PStr ''k=v''])]),
                  (''image_data'', PNone), (''xls_data'', PNone)]"
  have p: "parse_dnsdumpster (ex_world page5 (ex_response 200 (written page5)) (Inl RequestException))
       ex_client (written page5) ''example.com'' [] = (Inr ?res, [Call_BeautifulSoup (written page5)])"
    by code_simp
  have n: "?res \<noteq> PNone" by simp
  from result_shape_and_domain[OF p n] p show ?thesis by blast
qed

text \<open>
  C3. The list returned for a table holds, in the order of the rows, the entry of every
  row whose extraction succeeds and nothing for a row whose extraction raises; the
  function itself returns a list and raises nothing. A row without a second cell, or
  whose second cell's text contains no dotted quad, is such a row.
\<close>

theorem row_isolation:
  "retrieve_results table =
     List.map_filter (\<lambda>tr. case extract_row tr of Inr d \<Rightarrow> Some d | Inl e \<Rightarrow> None)
       (findAll table ''tr'') \<and>
   (length (findAll tr ''td'') < 2 \<or>
    \<not> contains_dotted_quad (get_text (findAll tr ''td'' ! 1)) \<longrightarrow>
      extract_row tr = Inl IndexError)"
  by (simp add: retrieve_results_def retrieve_loop_map_filter extract_row_no_ip)

theorem row_isolation_witness:
  "\<not> contains_dotted_quad (get_text (findAll (findAll table_mixed ''tr'' ! 1) ''td'' ! 1)) \<and>
   extract_row (findAll table_mixed ''tr'' ! 1) = Inl IndexError \<and>
   get_text (findAll row_script_only ''td'' ! 1) = [] \<and>
   \<not> contains_dotted_quad (get_text (findAll row_script_only ''td'' ! 1)) \<and>
   extract_row row_script_only = Inl IndexError \<and>
   retrieve_results table_mixed =
     [PDict [(''host'', PStr ''a.example.com''), (''ip'', PStr ''192.0.2.1''),
             (''reverse_dns'', PStr []), (''as'', PStr []), (''asn_range'', PStr []),
             (''asn_name'', PStr []), (''asn_country'', PStr []),
             (''open_service'', PStr ''N/A'')],
      PDict [(''host'', PStr ''c.example.com''), (''ip'', PStr ''192.0.2.3''),
             (''reverse_dns'', PStr []), (''as'', PStr []), (''asn_range'', PStr []),
             (''asn_name'', PStr []), (''asn_country'', PStr []),
             (''open_service'', PStr ''N/A'')]]"
proof -
  let ?tr = "findAll table_mixed ''tr'' ! 1"
  have "re_search pattern_ip (get_text (findAll ?tr ''td'' ! 1)) = None" by code_simp
  then have n: "\<not> contains_dotted_quad (get_text (findAll ?tr ''td'' ! 1))"
    by (simp add: re_search_ip_None_iff)
  have e: "List.map_filter (\<lambda>tr. case extract_row tr of Inr d \<Rightarrow> Some d | Inl e \<Rightarrow> None)
       (findAll table_mixed ''tr'') =
     [PDict [(''host'', PStr ''a.example.com''), (''ip'', PStr ''192.0.2.1''),
             (''reverse_dns'', PStr []), (''as'', PStr []), (''asn_range'', PStr []),
             (''asn_name'', PStr []), (''asn_country'', PStr []),
             (''open_service'', PStr ''N/A'')],
      PDict [(''host'', PStr ''c.example.com''), (''ip'', PStr ''192.0.2.3''),
             (''reverse_dns'', PStr []), (''as'', PStr []), (''asn_range'', PStr []),
             (''asn_name'', PStr []), (''asn_country'', PStr []),
             (''open_service'', PStr ''N/A'')]]" by code_simp
  have t: "get_text (findAll row_script_only ''td'' ! 1) = []" by code_simp
  have "re_search pattern_ip (get_text (findAll row_script_only ''td'' ! 1)) = None" by code_simp
  then have n': "\<not> contains_dotted_quad (get_text (findAll row_script_only ''td'' ! 1))"
    by (simp add: re_search_ip_None_iff)
  from row_isolation[of table_mixed ?tr] row_isolation[of table_mixed row_script_only] n n' t
  show ?thesis unfolding e by simp
qed

text \<open>
  C4, as the code has it. The \<^verbatim>\<open>open_service\<close> field of an extracted row is the text
  N/A when the row has at most four cells; with five or more cells it is the fifth
  cell's lines that are not blank, each stripped, joined by line breaks. That value may
  be empty, and it is again N/A when those lines are the one line N/A.
\<close>

theorem open_service_value:
  assumes "extract_row tr = Inr d"
  shows "dict_get d ''open_service'' =
           Some (PStr (if length (findAll tr ''td'') \<le> 4 then ''N/A''
                       else service_lines (get_text (findAll tr ''td'' ! 4))))"
proof -
  from extract_row_Inr[OF assms] obtain host ip asn asn_range r n c where
    "d = PDict [(''host'', PStr host), (''ip'', PStr ip), (''reverse_dns'', PStr r),
                (''as'', PStr asn), (''asn_range'', PStr asn_range),
                (''asn_name'', PStr n), (''asn_country'', PStr c),
                (''open_service'', PStr (if length (findAll tr ''td'') > 4
                    then service_lines (get_text (findAll tr ''td'' ! 4)) else ''N/A''))]"
    by blast
  then show ?thesis by (simp add: not_le)
qed

theorem open_service_value_witness:
  "extract_row row_short =
     Inr (PDict [(''host'', PStr ''ns1.example.com''), (''ip'', PStr ''192.0.2.1''),
                 (''reverse_dns'', PStr []), (''as'', PStr []), (''asn_range'', PStr []),
                 (''asn_name'', PStr []), (''asn_country'', PStr []),
                 (''open_service'', PStr ''N/A'')]) \<and>
   length (findAll row_short ''td'') = 2 \<and>
   length (findAll row_services ''td'') = 5 \<and>
   get_text (findAll row_services ''td'' ! 4) = '' http '' @ [LF, LF] @ '' ssh '' @ [LF] \<and>
   extract_row row_services =
     Inr (PDict [(''host'', PStr ''ns1.example.com''), (''ip'', PStr ''192.0.2.1''),
                 (''reverse_dns'', PStr []), (''as'', PStr []), (''asn_range'', PStr []),
                 (''asn_name'', PStr []), (''asn_country'', PStr []),
                 (''open_service'', PStr (''http'' @ [LF] @ ''ssh''))]) \<and>
   dict_get (PDict [(''host'', PStr ''ns1.example.com''), (''ip'', PStr ''192.0.2.1''),
                 (''reverse_dns'', PStr []), (''as'', PStr []), (''asn_range'', PStr []),
                 (''asn_name'', PStr []), (''asn_country'', PStr []),
                 (''open_service'', PStr (''http'' @ [LF] @ ''ssh''))]) ''open_service'' =
     Some (PStr (service_lines (get_text (findAll row_services ''td'' ! 4))))"
proof -
  have a: "extract_row row_short =
     Inr (PDict [(''host'', PStr ''ns1.example.com''), (''ip'', PStr ''192.0.2.1''),
                 (''reverse_dns'', PStr []), (''as'', PStr []), (''asn_range'', PStr []),
                 (''asn_name'', PStr []), (''asn_country'', PStr []),
                 (''open_service'', PStr ''N/A'')])" by code_simp
  have b: "extract_row row_services =
     Inr (PDict [(''host'', PStr ''ns1.example.com''), (''ip'', PStr ''192.0.2.1''),
                 (''reverse_dns'', PStr []), (''as'', PStr []), (''asn_range'', PStr []),
                 (''asn_name'', PStr []), (''asn_country'', PStr []),
                 (''open_service'', PStr (''http'' @ [LF] @ ''ssh''))])" by code_simp
  have l2: "length (findAll row_short ''td'') = 2" by code_simp
  have l5: "length (findAll row_services ''td'') = 5" by code_simp
  have t: "get_text (findAll row_services ''td'' ! 4) = '' http '' @ [LF, LF] @ '' ssh '' @ [LF]"
    by code_simp
  from open_service_value[OF b] l5 a b l2 t show ?thesis by simp
qed

text \<open>
  C4, as stated, fails on a row with five cells whose fifth cell reads N/A: the field is
  the text N/A although the row has more than four cells.
\<close>

theorem open_service_na_with_five_cells:
  "length (findAll row_na5 ''td'') = 5 \<and>
   \<not> length (findAll row_na5 ''td'') \<le> 4 \<and>
   extract_row row_na5 =
     Inr (PDict [(''host'', PStr ''ns1.example.com''), (''ip'', PStr ''192.0.2.1''),
                 (''reverse_dns'', PStr []), (''as'', PStr []), (''asn_range'', PStr []),
                 (''asn_name'', PStr []), (''asn_country'', PStr []),
                 (''open_service'', PStr ''N/A'')]) \<and>
   dict_get (PDict [(''host'', PStr ''ns1.example.com''), (''ip'', PStr ''192.0.2.1''),
                 (''reverse_dns'', PStr []), (''as'', PStr []), (''asn_range'', PStr []),
                 (''asn_name'', PStr []), (''asn_country'', PStr []),
                 (''open_service'', PStr ''N/A'')]) ''open_service'' = Some (PStr ''N/A'')"
proof -
  have l: "length (findAll row_na5 ''td'') = 5" by code_simp
  have e: "extract_row row_na5 =
     Inr (PDict [(''host'', PStr ''ns1.example.com''), (''ip'', PStr ''192.0.2.1''),
                 (''reverse_dns'', PStr []), (''as'', PStr []), (''asn_range'', PStr []),
                 (''asn_name'', PStr []), (''asn_country'', PStr []),
                 (''open_service'', PStr ''N/A'')])" by code_simp
  from l e show ?thesis by simp
qed

text \<open>
  C5. Without a token \<^verbatim>\<open>get_dnsdumpster\<close> returns \<^verbatim>\<open>None\<close> and the trace of calls is
  unchanged: no request was made. Without a token, or when \<^verbatim>\<open>get_dnsdumpster\<close> returns
  \<^verbatim>\<open>None\<close>, \<^verbatim>\<open>search\<close> returns \<^verbatim>\<open>None\<close>, its calls are those of
  \<^verbatim>\<open>get_dnsdumpster\<close>, and no call of the HTML parser is among them.
\<close>

theorem no_token_or_no_html_short_circuits:
  "(authorization self = None \<longrightarrow> get_dnsdumpster E self domain tr = (Inr None, tr)) \<and>
   (authorization self = None \<or> fst (get_dnsdumpster E self domain tr) = Inr None \<longrightarrow>
      fst (search E self domain tr) = Inr PNone \<and>
      snd (search E self domain tr) = snd (get_dnsdumpster E self domain tr) \<and>
      filter is_parser_call (snd (search E self domain tr)) = filter is_parser_call tr)"
proof -
  have a: "get_dnsdumpster E self domain tr = (Inr None, tr)" if "authorization self = None"
    using that by (simp add: get_dnsdumpster_def)
  have b: "fst (search E self domain tr) = Inr PNone \<and>
      snd (search E self domain tr) = snd (get_dnsdumpster E self domain tr) \<and>
      filter is_parser_call (snd (search E self domain tr)) = filter is_parser_call tr"
    if "authorization self = None \<or> fst (get_dnsdumpster E self domain tr) = Inr None"
  proof -
    from that a have "fst (get_dnsdumpster E self domain tr) = Inr None" by auto
    then have "search E self domain tr = (Inr PNone, snd (get_dnsdumpster E self domain tr))"
      by (simp add: search_no_html)
    then show ?thesis by (simp add: parser_calls_get_dnsdumpster)
  qed
  from a b show ?thesis by blast
qed

theorem no_token_or_no_html_short_circuits_witness:
  "authorization ex_client_no_token = None \<and>
   get_dnsdumpster (ex_world page5 (ex_response 200 (written page5)) (Inl RequestException))
       ex_client_no_token ''example.com'' [] = (Inr None, []) \<and>
   search (ex_world page5 (ex_response 200 (written page5)) (Inl RequestException))
       ex_client_no_token ''example.com'' [] = (Inr PNone, []) \<and>
   fst (get_dnsdumpster (ex_world page5 (ex_response 500 ''error'') (Inl RequestException))
       ex_client ''example.com'' []) = Inr None \<and>
   search (ex_world page5 (ex_response 500 ''error'') (Inl RequestException))
       ex_client ''example.com'' [] =
     (Inr PNone, [Call_requests_post ''https://api.dnsdumpster.com/htmld/''
                    [(''Authorization'', ''token'')] [(''target'', ''example.com'')]])"
proof -
  let ?W = "ex_world page5 (ex_response 200 (written page5)) (Inl RequestException)"
  let ?V = "ex_world page5 (ex_response 500 ''error'') (Inl RequestException)"
  have n: "authorization ex_client_no_token = None" by code_simp
  have f: "fst (get_dnsdumpster ?V ex_client ''example.com'' []) = Inr None" by code_simp
  have s: "snd (get_dnsdumpster ?V ex_client ''example.com'' []) =
     [Call_requests_post ''https://api.dnsdumpster.com/htmld/''
                    [(''Authorization'', ''token'')] [(''target'', ''example.com'')]]" by code_simp
  have 1: "get_dnsdumpster ?W ex_client_no_token ''example.com'' [] = (Inr None, [])"
    using no_token_or_no_html_short_circuits[of ex_client_no_token ?W "''example.com''" "[]"] n
    by simp
  have 2: "search ?W ex_client_no_token ''example.com'' [] = (Inr PNone, [])"
    using no_token_or_no_html_short_circuits[of ex_client_no_token ?W "''example.com''" "[]"] n 1
    by (simp add: prod_eq_iff)
  have 3: "search ?V ex_client ''example.com'' [] =
     (Inr PNone, [Call_requests_post ''https://api.dnsdumpster.com/htmld/''
                    [(''Authorization'', ''token'')] [(''target'', ''example.com'')]])"
    using no_token_or_no_html_short_circuits[of ex_client ?V "''example.com''" "[]"] f s
    by (simp add: prod_eq_iff)
  from n 1 2 f 3 show ?thesis by simp
qed

text \<open>
  C10. When \<^verbatim>\<open>get_dnsdumpster\<close> returns the empty text, \<^verbatim>\<open>search\<close> returns \<^verbatim>\<open>None\<close>
  and makes no call of the HTML parser; result and calls are those of a search whose
  request was answered with a failure.
\<close>

theorem empty_body_is_absent:
  assumes "fst (get_dnsdumpster E self domain tr) = Inr (Some [])"
  shows "fst (search E self domain tr) = Inr PNone \<and>
         snd (search E self domain tr) = snd (get_dnsdumpster E self domain tr) \<and>
         filter is_parser_call (snd (search E self domain tr)) = filter is_parser_call tr \<and>
         (\<forall>E'. fst (get_dnsdumpster E' self domain tr) = Inr None \<longrightarrow>
                search E' self domain tr = search E self domain tr)"
proof -
  have s: "search E self domain tr = (Inr PNone, snd (get_dnsdumpster E self domain tr))"
    using assms by (simp add: search_no_html)
  have "search E' self domain tr = search E self domain tr"
    if "fst (get_dnsdumpster E' self domain tr) = Inr None" for E'
  proof -
    from that have "search E' self domain tr = (Inr PNone, snd (get_dnsdumpster E' self domain tr))"
      by (simp add: search_no_html)
    then show ?thesis unfolding s by (simp add: snd_get_dnsdumpster)
  qed
  with s show ?thesis by (simp add: parser_calls_get_dnsdumpster)
qed

theorem empty_body_is_absent_witness:
  "fst (get_dnsdumpster (ex_world page5 (ex_response 200 []) (Inl RequestException))
       ex_client ''example.com'' []) = Inr (Some []) \<and>
   search (ex_world page5 (ex_response 200 []) (Inl RequestException))
       ex_client ''example.com'' [] =
     (Inr PNone, [Call_requests_post ''https://api.dnsdumpster.com/htmld/''
                    [(''Authorization'', ''token'')] [(''target'', ''example.com'')]]) \<and>
   fst (get_dnsdumpster (ex_world page5 (ex_response 500 ''error'') (Inl RequestException))
       ex_client ''example.com'' []) = Inr None \<and>
   search (ex_world page5 (ex_response 500 ''error'') (Inl RequestException))
       ex_client ''example.com'' [] =
   search (ex_world page5 (ex_response 200 []) (Inl RequestException))
       ex_client ''example.com'' []"
proof -
  let ?W = "ex_world page5 (ex_response 200 []) (Inl RequestException)"
  let ?V = "ex_world page5 (ex_response 500 ''error'') (Inl RequestException)"
  have h: "fst (get_dnsdumpster ?W ex_client ''example.com'' []) = Inr (Some [])" by code_simp
  have f: "fst (get_dnsdumpster ?V ex_client ''example.com'' []) = Inr None" by code_simp
  have s: "snd (get_dnsdumpster ?W ex_client ''example.com'' []) =
     [Call_requests_post ''https://api.dnsdumpster.com/htmld/''
                    [(''Authorization'', ''token'')] [(''target'', ''example.com'')]]" by code_simp
  note t = empty_body_is_absent[OF h]
  from t s have 1: "search ?W ex_client ''example.com'' [] =
     (Inr PNone, [Call_requests_post ''https://api.dnsdumpster.com/htmld/''
                    [(''Authorization'', ''token'')] [(''target'', ''example.com'')]])"
    by (simp add: prod_eq_iff)
  from t f have 2: "search ?V ex_client ''example.com'' [] = search ?W ex_client ''example.com'' []"
    by blast
  from h 1 f 2 show ?thesis by simp
qed

text \<open>
  C6. With at least five tables the parser returns a result. Its \<^verbatim>\<open>image_data\<close> is
  \<^verbatim>\<open>None\<close> when the image pattern has no match in the HTML text and when the request
  for the first match raises; \<^verbatim>\<open>xls_data\<close> is the same function of the spreadsheet
  pattern alone; \<^verbatim>\<open>dns_records\<close> is built from the tables alone. A request that is
  answered is never a failure for the code, which does not read the status of the
  answer as \<^verbatim>\<open>get_token\<close> and \<^verbatim>\<open>get_dnsdumpster\<close> do: the body of an answer with
  status 404 becomes the Base64 text of \<^verbatim>\<open>image_data\<close>, where the expected value is
  \<^verbatim>\<open>None\<close>.
\<close>

theorem asset_status_not_read:
  assumes "5 \<le> length (findAll (BeautifulSoup E html) ''table'')"
  shows "\<exists>res tr'.
     parse_dnsdumpster E self html domain tr = (Inr res, tr') \<and>
     dict_get res ''image_data'' =
       Some (case re_search (pattern_asset ''maps'' domain ''png'') html of
               None \<Rightarrow> PNone
             | Some url \<Rightarrow> (case requests_get E url of
                              Inl e \<Rightarrow> PNone
                            | Inr r \<Rightarrow> PStr (b64encode (content r)))) \<and>
     dict_get res ''xls_data'' =
       Some (case re_search (pattern_asset ''xlsx'' domain ''xlsx'') html of
               None \<Rightarrow> PNone
             | Some url \<Rightarrow> (case requests_get E url of
                              Inl e \<Rightarrow> PNone
                            | Inr r \<Rightarrow> PStr (b64encode (content r)))) \<and>
     (\<not> occurs (pattern_asset ''maps'' domain ''png'') html \<longrightarrow>
        dict_get res ''image_data'' = Some PNone) \<and>
     (\<not> occurs (pattern_asset ''xlsx'' domain ''xlsx'') html \<longrightarrow>
        dict_get res ''xls_data'' = Some PNone) \<and>
     dict_get res ''dns_records'' =
       Some (PDict [(''a'', PList (retrieve_results (findAll (BeautifulSoup E html) ''table'' ! 1))),
                    (''mx'', PList (retrieve_results (findAll (BeautifulSoup E html) ''table'' ! 2))),
                    (''ns'', PList (retrieve_results (findAll (BeautifulSoup E html) ''table'' ! 3))),
                    (''txt'', PList (retrieve_txt_record (findAll (BeautifulSoup E html) ''table'' ! 4)))])"
  unfolding parse_at_least_5_tables[OF assms] Let_def
  by (simp add: fetch_asset_no_occurrence) (simp add: fst_fetch_asset)

theorem asset_status_not_read_witness:
  "5 \<le> length (findAll (BeautifulSoup
            (ex_world page_with_map (ex_response 200 (written page_with_map))
               (ex_response 404 ''Not Found''))
            (written page_with_map)) ''table'') \<and>
   re_search (pattern_asset ''maps'' ''example.com'' ''png'') (written page_with_map) =
     Some ''https://api.dnsdumpster.com/static/maps/example.com-0a1b-2c3d.png'' \<and>
   requests_get (ex_world page_with_map (ex_response 200 (written page_with_map))
                   (ex_response 404 ''Not Found''))
       ''https://api.dnsdumpster.com/static/maps/example.com-0a1b-2c3d.png'' =
     Inr \<lparr>status_code = 404, resp_text = ''Not Found'', content = ''Not Found''\<rparr> \<and>
   (\<exists>res tr'.
      parse_dnsdumpster
          (ex_world page_with_map (ex_response 200 (written page_with_map))
             (ex_response 404 ''Not Found''))
          ex_client (written page_with_map) ''example.com'' [] = (Inr res, tr') \<and>
      dict_get res ''image_data'' = Some (PStr ''Tm90IEZvdW5k'') \<and>
      dict_get res ''xls_data'' = Some PNone) \<and>
   requests_get (ex_world page_with_map (ex_response 200 (written page_with_map))
                   (Inl RequestException))
       ''https://api.dnsdumpster.com/static/maps/example.com-0a1b-2c3d.png'' =
     Inl RequestException \<and>
   \<not> occurs (pattern_asset ''xlsx'' ''example.com'' ''xlsx'') (written page_with_map) \<and>
   (\<exists>res tr'.
      parse_dnsdumpster
          (ex_world page_with_map (ex_response 200 (written page_with_map)) (Inl RequestException))
          ex_client (written page_with_map) ''example.com'' [] = (Inr res, tr') \<and>
      dict_get res ''image_data'' = Some PNone \<and>
      dict_get res ''xls_data'' = Some PNone \<and>
      dict_get res ''dns_records'' =
        Some (PDict [(''a'', PList [PDict [(''host'', PStr ''ns1.example.com''),
                                          (''ip'', PStr ''192.0.2.1''),
                                          (''reverse_dns'', PStr []), (''as'', PStr []),
                                          (''asn_range'', PStr []), (''asn_name'', PStr []),
                                          (''asn_country'', PStr []),
                                          (''open_service'', PStr ''N/A'')]]),
                     (''mx'', PList []), (''ns'', PList []), (''txt'', PList [PStr ''k=v''])]))"
proof -
  let ?h = "written page_with_map"
  let ?W = "ex_world page_with_map (ex_response 200 ?h) (Inl RequestException)"
  let ?V = "ex_world page_with_map (ex_response 200 ?h) (ex_response 404 ''Not Found'')"
  let ?u = "''https://api.dnsdumpster.com/static/maps/example.com-0a1b-2c3d.png''"
  have hW: "5 \<le> length (findAll (BeautifulSoup ?W ?h) ''table'')" by code_simp
  have hV: "5 \<le> length (findAll (BeautifulSoup ?V ?h) ''table'')" by code_simp
  have m: "re_search (pattern_asset ''maps'' ''example.com'' ''png'') ?h = Some ?u" by code_simp
  have x: "re_search (pattern_asset ''xlsx'' ''example.com'' ''xlsx'') ?h = None" by code_simp
  have gW: "requests_get ?W ?u = Inl RequestException" by code_simp
  have gV: "requests_get ?V ?u =
     Inr \<lparr>status_code = 404, resp_text = ''Not Found'', content = ''Not Found''\<rparr>" by code_simp
  have gW': "(case requests_get ?W ?u of Inl e \<Rightarrow> PNone | Inr r \<Rightarrow> PStr (b64encode (content r))) =
            PNone" by code_simp
  have gV': "(case requests_get ?V ?u of Inl e \<Rightarrow> PNone | Inr r \<Rightarrow> PStr (b64encode (content r))) =
            PStr ''Tm90IEZvdW5k''" by code_simp
  have nx: "\<not> occurs (pattern_asset ''xlsx'' ''example.com'' ''xlsx'') ?h"
    using x by (simp add: re_search_None_iff)
  have d: "PDict [(''a'', PList (retrieve_results (findAll (BeautifulSoup ?W ?h) ''table'' ! 1))),
                  (''mx'', PList (retrieve_results (findAll (BeautifulSoup ?W ?h) ''table'' ! 2))),
                  (''ns'', PList (retrieve_results (findAll (BeautifulSoup ?W ?h) ''table'' ! 3))),
                  (''txt'', PList (retrieve_txt_record (findAll (BeautifulSoup ?W ?h) ''table'' ! 4)))] =
           PDict [(''a'', PList [PDict [(''host'', PStr ''ns1.example.com''),
                                          (''ip'', PStr ''192.0.2.1''),
                                          (''reverse_dns'', PStr []), (''as'', PStr []),
                                          (''asn_range'', PStr []), (''asn_name'', PStr []),
                                          (''asn_country'', PStr []),
                                          (''open_service'', PStr ''N/A'')]]),
                     (''mx'', PList []), (''ns'', PList []), (''txt'', PList [PStr ''k=v''])]"
    by code_simp
  from asset_status_not_read[OF hW, of ex_client "''example.com''" "[]"]
  have 1: "\<exists>res tr'.
      parse_dnsdumpster ?W ex_client ?h ''example.com'' [] = (Inr res, tr') \<and>
      dict_get res ''image_data'' = Some PNone \<and>
      dict_get res ''xls_data'' = Some PNone \<and>
      dict_get res ''dns_records'' =
        Some (PDict [(''a'', PList [PDict [(''host'', PStr ''ns1.example.com''),
                                          (''ip'', PStr ''192.0.2.1''),
                                          (''reverse_dns'', PStr []), (''as'', PStr []),
                                          (''asn_range'', PStr []), (''asn_name'', PStr []),
                                          (''asn_country'', PStr []),
                                          (''open_service'', PStr ''N/A'')]]),
                     (''mx'', PList []), (''ns'', PList []), (''txt'', PList [PStr ''k=v''])])"
    unfolding m x d using nx gW' by auto
  from asset_status_not_read[OF hV, of ex_client "''example.com''" "[]"]
  have 2: "\<exists>res tr'.
      parse_dnsdumpster ?V ex_client ?h ''example.com'' [] = (Inr res, tr') \<and>
      dict_get res ''image_data'' = Some (PStr ''Tm90IEZvdW5k'') \<and>
      dict_get res ''xls_data'' = Some PNone"
    unfolding m x using gV' by auto
  from hV m gV 2 gW nx 1 show ?thesis by blast
qed

text \<open>
  C9. Every entry of the list returned for a table is the dictionary extracted from one
  of its rows: its keys are exactly host, ip, reverse\_dns, as, asn\_range, asn\_name,
  asn\_country and open\_service, and its ip is a dotted quad, the one the pattern finds
  in the text of the row's second cell, at the leftmost place where a dotted quad starts.
\<close>

theorem row_entry_keys_and_ip:
  assumes "d \<in> set (retrieve_results table)"
  shows "dict_keys d = [''host'', ''ip'', ''reverse_dns'', ''as'', ''asn_range'', ''asn_name'',
                        ''asn_country'', ''open_service''] \<and>
         (\<exists>tr ip pre post.
            tr \<in> set (findAll table ''tr'') \<and> extract_row tr = Inr d \<and>
            1 < length (findAll tr ''td'') \<and>
            dict_get d ''ip'' = Some (PStr ip) \<and> dotted_quad ip \<and>
            re_search pattern_ip (get_text (findAll tr ''td'' ! 1)) = Some ip \<and>
            get_text (findAll tr ''td'' ! 1) = pre @ ip @ post \<and>
            (\<forall>pre' q post'. get_text (findAll tr ''td'' ! 1) = pre' @ q @ post' \<and> dotted_quad q
                 \<longrightarrow> length pre \<le> length pre'))"
proof -
  from assms have "d \<in> set (List.map_filter
      (\<lambda>tr. case extract_row tr of Inr d \<Rightarrow> Some d | Inl e \<Rightarrow> None) (findAll table ''tr''))"
    by (simp add: retrieve_results_def retrieve_loop_map_filter)
  then obtain tr where tr: "tr \<in> set (findAll table ''tr'')"
    and f: "(case extract_row tr of Inr d \<Rightarrow> Some d | Inl e \<Rightarrow> None) = Some d"
    unfolding in_set_map_filter by blast
  from f have e: "extract_row tr = Inr d" by (cases "extract_row tr") auto
  from extract_row_Inr[OF e] obtain host ip asn asn_range r n c s where
    d: "d = PDict [(''host'', PStr host), (''ip'', PStr ip), (''reverse_dns'', PStr r),
                (''as'', PStr asn), (''asn_range'', PStr asn_range),
                (''asn_name'', PStr n), (''asn_country'', PStr c),
                (''open_service'', PStr s)]"
    and len: "1 < length (findAll tr ''td'')"
    and ip: "re_search pattern_ip (get_text (findAll tr ''td'' ! 1)) = Some ip"
    by blast
  from re_search_leftmost[OF ip] obtain pre post where
    t: "get_text (findAll tr ''td'' ! 1) = pre @ ip @ post" and q: "dotted_quad ip"
    and first: "\<forall>pre' q post'. get_text (findAll tr ''td'' ! 1) = pre' @ q @ post' \<and> dotted_quad q
                 \<longrightarrow> length pre \<le> length pre'"
    unfolding accepts_pattern_ip by blast
  have k: "dict_keys d = [''host'', ''ip'', ''reverse_dns'', ''as'', ''asn_range'', ''asn_name'',
                        ''asn_country'', ''open_service'']" by (simp add: d)
  have g: "dict_get d ''ip'' = Some (PStr ip)" by (simp add: d)
  from tr e len g q ip t first k show ?thesis by blast
qed

theorem row_entry_keys_and_ip_witness:
  "PDict [(''host'', PStr ''c.example.com''), (''ip'', PStr ''192.0.2.3''),
          (''reverse_dns'', PStr []), (''as'', PStr []), (''asn_range'', PStr []),
          (''asn_name'', PStr []), (''asn_country'', PStr []),
          (''open_service'', PStr ''N/A'')] \<in> set (retrieve_results table_mixed) \<and>
   dict_keys (PDict [(''host'', PStr ''c.example.com''), (''ip'', PStr ''192.0.2.3''),
          (''reverse_dns'', PStr []), (''as'', PStr []), (''asn_range'', PStr []),
          (''asn_name'', PStr []), (''asn_country'', PStr []),
          (''open_service'', PStr ''N/A'')]) =
     [''host'', ''ip'', ''reverse_dns'', ''as'', ''asn_range'', ''asn_name'',
      ''asn_country'', ''open_service''] \<and>
   dotted_quad ''192.0.2.3'' \<and>
   retrieve_results table_scripts =
     [PDict [(''host'', PStr ''t.example.com''), (''ip'', PStr ''5.6.7.8''),
             (''reverse_dns'', PStr []), (''as'', PStr []), (''asn_range'', PStr []),
             (''asn_name'', PStr []), (''asn_country'', PStr []),
             (''open_service'', PStr ''N/A'')]] \<and>
   dotted_quad ''5.6.7.8''"
proof -
  let ?d = "PDict [(''host'', PStr ''c.example.com''), (''ip'', PStr ''192.0.2.3''),
          (''reverse_dns'', PStr []), (''as'', PStr []), (''asn_range'', PStr []),
          (''asn_name'', PStr []), (''asn_country'', PStr []),
          (''open_service'', PStr ''N/A'')]"
  have r: "retrieve_results table_mixed =
     [PDict [(''host'', PStr ''a.example.com''), (''ip'', PStr ''192.0.2.1''),
             (''reverse_dns'', PStr []), (''as'', PStr []), (''asn_range'', PStr []),
             (''asn_name'', PStr []), (''asn_country'', PStr []),
             (''open_service'', PStr ''N/A'')], ?d]" by code_simp
  have h: "?d \<in> set (retrieve_results table_mixed)" unfolding r by simp
  from row_entry_keys_and_ip[OF h] obtain ip where
    k: "dict_keys ?d = [''host'', ''ip'', ''reverse_dns'', ''as'', ''asn_range'', ''asn_name'',
                        ''asn_country'', ''open_service'']"
    and g: "dict_get ?d ''ip'' = Some (PStr ip)" and q: "dotted_quad ip" by blast
  from g have i: "ip = ''192.0.2.3''" by simp
  let ?d' = "PDict [(''host'', PStr ''t.example.com''), (''ip'', PStr ''5.6.7.8''),
             (''reverse_dns'', PStr []), (''as'', PStr []), (''asn_range'', PStr []),
             (''asn_name'', PStr []), (''asn_country'', PStr []),
             (''open_service'', PStr ''N/A'')]"
  have r': "retrieve_results table_scripts = [?d']" by code_simp
  have h': "?d' \<in> set (retrieve_results table_scripts)" unfolding r' by simp
  from row_entry_keys_and_ip[OF h'] obtain ip' where
    g': "dict_get ?d' ''ip'' = Some (PStr ip')" and q': "dotted_quad ip'" by blast
  from g' have i': "ip' = ''5.6.7.8''" by simp
  from h k q i r' q' i' show ?thesis by blast
qed

end
